theory Spec2Isabelle
  imports Main "HOL-Library.Sublist"
begin

section \<open>The ticket subsystem of main.py\<close>

text \<open>
  The development embeds the ticket part of \<^verbatim>\<open>src/main.py\<close>: the \<^verbatim>\<open>tickets\<close> and
  \<^verbatim>\<open>guild_config\<close> tables, \<^verbatim>\<open>get_cfg\<close>, \<^verbatim>\<open>TicketPanelView.open_ticket\<close> with its
  inline \<^verbatim>\<open>_close\<close> callback, \<^verbatim>\<open>TicketPanelView.close_ticket\<close>, \<^verbatim>\<open>ticket_close_logic\<close>
  and the \<^verbatim>\<open>/ticketclose\<close> command.

  Conventions of the embedding.
  \<^item> Discord ids and SQLite INTEGER columns are Python's unbounded integers: \<open>int\<close>.
  \<^item> A table is the list of its rows in insertion (rowid) order; \<^verbatim>\<open>fetchone()\<close> on a
    query without ORDER BY yields the first matching row of that list.
  \<^item> Each handler is one function from the database and what the platform shows it
    (the guild, the invoking member, the answers of the awaited platform calls) to the
    new database, the list of effects in the order the code performs them, and the
    outcome: the reply sent to the invoking user, or the exception that leaves the
    handler.
  \<^item> An awaited platform call that can fail for reasons outside the program
    (\<^verbatim>\<open>create_text_channel\<close>, \<^verbatim>\<open>ch.history\<close>, \<^verbatim>\<open>ch.send\<close>) takes its answer as an
    argument; the failing answer is the branch where \<^verbatim>\<open>discord.HTTPException\<close>
    propagates. Sending a reply to the interaction is taken to succeed.
\<close>

subsection \<open>Tables\<close>

text \<open>
  \<^verbatim>\<open>CREATE TABLE tickets (guild_id INTEGER, user_id INTEGER, channel_id INTEGER,
  open INTEGER, created_at TEXT)\<close>. The column \<^verbatim>\<open>open\<close> is \<open>open_flag\<close> here; the code
  only ever writes 1 (INSERT) and 0 (UPDATE) into it and tests \<^verbatim>\<open>open=1\<close>.
\<close>

record ticket_row =
  guild_id :: int
  user_id :: int
  channel_id :: int
  open_flag :: int
  created_at :: string

text \<open>
  \<^verbatim>\<open>CREATE TABLE guild_config (guild_id INTEGER PRIMARY KEY, log_channel_id INTEGER,
  welcome_channel_id INTEGER, autorole_id INTEGER, ticket_category_id INTEGER,
  anti_links INTEGER DEFAULT 0)\<close>. A column that may hold NULL is an option. The primary
  key makes the table a map from the guild id to the rest of the row.
\<close>

record guild_config_row =
  log_channel_id :: "int option"
  welcome_channel_id :: "int option"
  autorole_id :: "int option"
  ticket_category_id :: "int option"
  anti_links :: "int option"

record db =
  guild_config :: "int \<rightharpoonup> guild_config_row"
  tickets :: "ticket_row list"

subsection \<open>What the platform shows a handler\<close>

datatype channel_kind = TextChannel | CategoryChannel | OtherChannel

text \<open>
  \<^verbatim>\<open>interaction.guild\<close>: its id, the two permissions of \<^verbatim>\<open>guild.me\<close> that
  \<^verbatim>\<open>open_ticket\<close> reads, and \<^verbatim>\<open>guild.get_channel\<close> as a map from channel ids to
  the kind of channel (None where the guild has no such channel).
\<close>

record guild =
  g_id :: int
  me_manage_channels :: bool
  me_manage_roles :: bool
  get_channel :: "int \<rightharpoonup> channel_kind"

text \<open>
  \<^verbatim>\<open>interaction.user\<close>: its id, its name and the two guild permissions the ticket
  code reads (\<^verbatim>\<open>manage_channels\<close> in the close paths, \<^verbatim>\<open>manage_guild\<close> in
  \<^verbatim>\<open>staff_check\<close>).
\<close>

record member =
  u_id :: int
  u_name :: string
  manage_channels :: bool
  manage_guild :: bool

text \<open>
  The fields of \<^verbatim>\<open>m.created_at\<close> that the transcript prints, \<^verbatim>\<open>str(m.author)\<close> and
  \<^verbatim>\<open>m.content\<close> (a \<^verbatim>\<open>str\<close> in discord.py, on which \<^verbatim>\<open>m.content or ""\<close> is the
  identity).
\<close>

record datetime =
  dt_month :: nat
  dt_day :: nat
  dt_hour :: nat
  dt_minute :: nat

record message =
  msg_created_at :: datetime
  author :: string
  content :: string

subsection \<open>Replies, exceptions and effects\<close>

text \<open>
  The replies of the ticket handlers, named after the error taxonomy of the
  specification, with the text the code sends (written here without its accents and
  emoji):
  \<^item> \<open>InsufficientPermissions\<close>: "O bot precisa de **Manage Channels** e **Manage Roles**."
  \<^item> \<open>NotConfigured\<close>: "Sistema de tickets nao configurado. Use `/setup`."
  \<^item> \<open>InvalidCategory\<close>: "Categoria de tickets invalida. Refaca o `/setup`."
  \<^item> \<open>DuplicateTicket r\<close>: "Voce ja tem um ticket aberto: ..." followed by the mention of
    channel \<open>c\<close> when \<open>r = Some c\<close> and by \<^verbatim>\<open>#apagado\<close> when \<open>r = None\<close>.
  \<^item> \<open>TicketCreated c\<close>: "Ticket criado: ..." with the mention of the new channel.
  \<^item> \<open>NotATicket\<close>: "Este canal nao e um ticket aberto."
  \<^item> \<open>Forbidden\<close>: "Apenas o autor ou staff podem fechar este ticket." in
    \<^verbatim>\<open>ticket_close_logic\<close>, "Apenas o autor ou staff podem fechar." in \<^verbatim>\<open>_close\<close>.
  \<^item> \<open>TicketClosed\<close>: "Ticket fechado. Voce pode arquivar/deletar este canal."
  \<^item> \<open>NotInTextChannel\<close>: "Use dentro do canal do ticket." / "Use no canal do ticket."
  \<^item> \<open>StaffCheckFailed\<close>: the \<^verbatim>\<open>AppCommandError\<close> of \<^verbatim>\<open>staff_check\<close>, which
    \<^verbatim>\<open>on_app_command_error\<close> sends as "Erro: Voce precisa de **Gerenciar Servidor**."
\<close>

datatype reply =
    InsufficientPermissions
  | NotConfigured
  | InvalidCategory
  | DuplicateTicket "int option"
  | TicketCreated int
  | NotATicket
  | Forbidden
  | TicketClosed
  | NotInTextChannel
  | StaffCheckFailed

datatype exn = HTTPException

text \<open>
  The effects a handler performs, in program order: acknowledging the interaction,
  replying, creating a channel, committing the INSERT or the UPDATE, reading the
  history, and posting into the ticket channel.
\<close>

datatype event =
    Defer
  | Reply reply
  | CreateTextChannel string int int
  | CommitInsert ticket_row
  | CommitUpdate int int
  | ReadHistory int
  | SendWelcome int
  | SendTranscript int string

type_synonym outcome = "exn + reply"

subsection \<open>The transcript\<close>

definition newline :: char where
  "newline = CHR 0x0A"

definition digit :: "nat \<Rightarrow> char" where
  "digit d = ''0123456789'' ! (d mod 10)"

text \<open>
  \<^verbatim>\<open>%d\<close>, \<^verbatim>\<open>%m\<close>, \<^verbatim>\<open>%H\<close> and \<^verbatim>\<open>%M\<close> print a field of a datetime, which is below
  100, as two decimal digits.
\<close>

definition two_digits :: "nat \<Rightarrow> string" where
  "two_digits n = [digit (n div 10), digit n]"

text \<open>\<^verbatim>\<open>f"{m.created_at:%d/%m %H:%M}"\<close>\<close>

definition format_created_at :: "datetime \<Rightarrow> string" where
  "format_created_at t =
     two_digits (dt_day t) @ ''/'' @ two_digits (dt_month t) @ '' '' @
     two_digits (dt_hour t) @ '':'' @ two_digits (dt_minute t)"

text \<open>\<^verbatim>\<open>s.replace("\n", " ")\<close>\<close>

definition replace_newlines :: "string \<Rightarrow> string" where
  "replace_newlines s = map (\<lambda>c. if c = newline then CHR '' '' else c) s"

text \<open>\<^verbatim>\<open>sep.join(xs)\<close>\<close>

fun join :: "string \<Rightarrow> string list \<Rightarrow> string" where
  "join sep [] = []"
| "join sep [x] = x"
| "join sep (x # y # ys) = x @ sep @ join sep (y # ys)"

text \<open>
  The body of the loop over \<^verbatim>\<open>ch.history(limit=None, oldest_first=True)\<close>:
  \<^verbatim>\<open>content = (m.content or "").replace("\n", " ")\<close> and
  \<^verbatim>\<open>f"[{m.created_at:%d/%m %H:%M}] {m.author}: {content}"\<close>.
\<close>

definition transcript_line :: "message \<Rightarrow> string" where
  "transcript_line m =
     ''['' @ format_created_at (msg_created_at m) @ ''] '' @ author m @ '': '' @
     replace_newlines (content m)"

text \<open>
  \<^verbatim>\<open>transcript = "\n".join(lines) or "Sem mensagens."\<close>, on the history oldest first.
  Python's \<^verbatim>\<open>x or y\<close> is \<^verbatim>\<open>y\<close> exactly when the string \<^verbatim>\<open>x\<close> is empty.
\<close>

definition build_transcript :: "message list \<Rightarrow> string" where
  "build_transcript history =
     (let lines = map transcript_line history;
          joined = join [newline] lines
      in if joined = [] then ''Sem mensagens.'' else joined)"

text \<open>
  The lines of a text, as \<^verbatim>\<open>str.split("\n")\<close> cuts them: this is the measure of
  "how many lines" a transcript has, it is not part of the program.
\<close>

fun split_on :: "char \<Rightarrow> string \<Rightarrow> string list" where
  "split_on c [] = [[]]"
| "split_on c (x # xs) =
     (if x = c then [] # split_on c xs
      else (case split_on c xs of
              [] \<Rightarrow> [[x]]
            | l # ls \<Rightarrow> (x # l) # ls))"

definition transcript_lines :: "string \<Rightarrow> string list" where
  "transcript_lines s = split_on newline s"

subsection \<open>Queries on the tables\<close>

text \<open>
  \<^verbatim>\<open>get_cfg\<close>: the dictionary built from the guild's row, empty when the guild has none.
  A dictionary maps a key to a value that may be Python's \<^verbatim>\<open>None\<close>.
\<close>

definition get_cfg :: "db \<Rightarrow> int \<Rightarrow> (string \<rightharpoonup> int option)" where
  "get_cfg d gid =
     (case guild_config d gid of
        None \<Rightarrow> Map.empty
      | Some row \<Rightarrow>
          [''log'' \<mapsto> log_channel_id row,
           ''welcome'' \<mapsto> welcome_channel_id row,
           ''autorole'' \<mapsto> autorole_id row,
           ''ticket_cat'' \<mapsto> ticket_category_id row,
           ''anti_links'' \<mapsto>
              (case anti_links row of None \<Rightarrow> Some 0 | Some n \<Rightarrow> Some n)])"

text \<open>\<^verbatim>\<open>cfg.get(key)\<close>: \<^verbatim>\<open>None\<close> for a missing key.\<close>

definition dict_get :: "(string \<rightharpoonup> int option) \<Rightarrow> string \<Rightarrow> int option" where
  "dict_get cfg key = (case cfg key of None \<Rightarrow> None | Some v \<Rightarrow> v)"

text \<open>\<^verbatim>\<open>not cat_id\<close>: true of \<^verbatim>\<open>None\<close> and of 0.\<close>

definition falsy :: "int option \<Rightarrow> bool" where
  "falsy v = (case v of None \<Rightarrow> True | Some n \<Rightarrow> n = 0)"

text \<open>
  \<^verbatim>\<open>SELECT channel_id FROM tickets WHERE guild_id=? AND user_id=? AND open=1\<close>
  with \<^verbatim>\<open>fetchone()\<close>: the first open row of the user in the guild. The spec calls
  the check \<^verbatim>\<open>tryOpen\<close>.
\<close>

definition find_open_by_user :: "ticket_row list \<Rightarrow> int \<Rightarrow> int \<Rightarrow> ticket_row option" where
  "find_open_by_user ts gid uid =
     find (\<lambda>r. guild_id r = gid \<and> user_id r = uid \<and> open_flag r = 1) ts"

text \<open>
  \<^verbatim>\<open>SELECT user_id FROM tickets WHERE guild_id=? AND channel_id=? AND open=1\<close>
  with \<^verbatim>\<open>fetchone()\<close>: the first open row of the channel; the code reads its
  \<^verbatim>\<open>user_id\<close>. The spec calls it \<^verbatim>\<open>findOpenByChannel\<close>.
\<close>

definition find_open_by_channel :: "ticket_row list \<Rightarrow> int \<Rightarrow> int \<Rightarrow> ticket_row option" where
  "find_open_by_channel ts gid cid =
     find (\<lambda>r. guild_id r = gid \<and> channel_id r = cid \<and> open_flag r = 1) ts"

text \<open>
  \<^verbatim>\<open>INSERT INTO tickets (guild_id, user_id, channel_id, open, created_at)
  VALUES (?, ?, ?, 1, ?)\<close>: the spec's \<^verbatim>\<open>recordOpened\<close>.
\<close>

definition record_opened :: "ticket_row list \<Rightarrow> int \<Rightarrow> int \<Rightarrow> int \<Rightarrow> string \<Rightarrow> ticket_row list" where
  "record_opened ts gid uid cid now =
     ts @ [\<lparr>guild_id = gid, user_id = uid, channel_id = cid, open_flag = 1,
            created_at = now\<rparr>]"

text \<open>\<^verbatim>\<open>UPDATE tickets SET open=0 WHERE guild_id=? AND channel_id=?\<close>\<close>

definition mark_closed :: "ticket_row list \<Rightarrow> int \<Rightarrow> int \<Rightarrow> ticket_row list" where
  "mark_closed ts gid cid =
     map (\<lambda>r. if guild_id r = gid \<and> channel_id r = cid then r\<lparr>open_flag := 0\<rparr> else r) ts"

subsection \<open>Opening a ticket\<close>

text \<open>
  \<^verbatim>\<open>open_ticket\<close> up to the first awaited platform call that changes anything (lines
  584 to 604): the permission check on \<^verbatim>\<open>guild.me\<close>, the configured category, the
  kind of the category channel and the duplicate check. \<open>Some r\<close> is the early return
  with the reply \<open>r\<close>, \<open>None\<close> lets the handler go on to create the channel.
\<close>

definition open_precheck :: "db \<Rightarrow> guild \<Rightarrow> member \<Rightarrow> reply option" where
  "open_precheck d g u =
     (if \<not> (me_manage_channels g \<and> me_manage_roles g) then Some InsufficientPermissions
      else
        let cat_id = dict_get (get_cfg d (g_id g)) ''ticket_cat'' in
        if falsy cat_id then Some NotConfigured
        else if get_channel g (the cat_id) \<noteq> Some CategoryChannel then Some InvalidCategory
        else
          (case find_open_by_user (tickets d) (g_id g) (u_id u) of
             Some row \<Rightarrow>
               Some (DuplicateTicket
                 (if get_channel g (channel_id row) = None then None
                  else Some (channel_id row)))
           | None \<Rightarrow> None))"

text \<open>
  The rest of \<^verbatim>\<open>open_ticket\<close> once \<^verbatim>\<open>create_text_channel\<close> has returned the channel
  with id \<open>cid\<close> (lines 617 to 637): the INSERT with its commit, the welcome message
  carrying the inline close button, and the reply.
\<close>

definition open_record :: "db \<Rightarrow> guild \<Rightarrow> member \<Rightarrow> string \<Rightarrow> int \<Rightarrow> db \<times> event list \<times> outcome" where
  "open_record d g u now cid =
     (d\<lparr>tickets := record_opened (tickets d) (g_id g) (u_id u) cid now\<rparr>,
      [CommitInsert \<lparr>guild_id = g_id g, user_id = u_id u, channel_id = cid,
                     open_flag = 1, created_at = now\<rparr>,
       SendWelcome cid,
       Reply (TicketCreated cid)],
      Inr (TicketCreated cid))"

text \<open>
  \<^verbatim>\<open>TicketPanelView.open_ticket\<close>, run without interruption. \<open>now\<close> is
  \<^verbatim>\<open>datetime.utcnow().isoformat()\<close>; \<open>created\<close> is the answer of
  \<^verbatim>\<open>guild.create_text_channel\<close>: the id of the new channel, or \<open>None\<close> when the call
  raises.
\<close>

definition open_ticket :: "db \<Rightarrow> guild \<Rightarrow> member \<Rightarrow> string \<Rightarrow> int option \<Rightarrow> db \<times> event list \<times> outcome" where
  "open_ticket d g u now created =
     (case open_precheck d g u of
        Some r \<Rightarrow> (d, [Defer, Reply r], Inr r)
      | None \<Rightarrow>
          (case created of
             None \<Rightarrow> (d, [Defer], Inl HTTPException)
           | Some cid \<Rightarrow>
               (case open_record d g u now cid of
                  (d', evs, out) \<Rightarrow>
                    (d',
                     Defer #
                     CreateTextChannel (''ticket-'' @ u_name u)
                       (the (dict_get (get_cfg d (g_id g)) ''ticket_cat'')) cid #
                     evs,
                     out))))"

subsection \<open>Closing a ticket\<close>

text \<open>
  \<^verbatim>\<open>ticket_close_logic(guild, ch, interaction)\<close>. \<open>cid\<close> is \<^verbatim>\<open>ch.id\<close>, \<open>u\<close> is
  \<^verbatim>\<open>interaction.user\<close>, \<open>history\<close> is what \<^verbatim>\<open>ch.history(limit=None,
  oldest_first=True)\<close> yields (\<open>None\<close> when it raises) and \<open>send_ok\<close> tells whether
  \<^verbatim>\<open>ch.send(file=...)\<close> succeeds. The UPDATE is committed (lines 669 to 672) before
  the transcript is sent (line 674).
\<close>

definition ticket_close_logic ::
    "db \<Rightarrow> guild \<Rightarrow> int \<Rightarrow> member \<Rightarrow> message list option \<Rightarrow> bool \<Rightarrow> db \<times> event list \<times> outcome" where
  "ticket_close_logic d g cid u history send_ok =
     (case find_open_by_channel (tickets d) (g_id g) cid of
        None \<Rightarrow> (d, [Reply NotATicket], Inr NotATicket)
      | Some row \<Rightarrow>
          let owner_id = user_id row in
          if u_id u \<noteq> owner_id \<and> \<not> manage_channels u
          then (d, [Reply Forbidden], Inr Forbidden)
          else
            (case history of
               None \<Rightarrow> (d, [], Inl HTTPException)
             | Some msgs \<Rightarrow>
                 let transcript = build_transcript msgs;
                     d' = d\<lparr>tickets := mark_closed (tickets d) (g_id g) cid\<rparr>
                 in if \<not> send_ok
                    then (d', [ReadHistory cid, CommitUpdate (g_id g) cid], Inl HTTPException)
                    else (d',
                          [ReadHistory cid, CommitUpdate (g_id g) cid,
                           SendTranscript cid transcript, Reply TicketClosed],
                          Inr TicketClosed)))"

text \<open>Running a handler after \<^verbatim>\<open>interaction.response.defer\<close>.\<close>

definition deferred :: "db \<times> event list \<times> outcome \<Rightarrow> db \<times> event list \<times> outcome" where
  "deferred res = (case res of (d, evs, out) \<Rightarrow> (d, Defer # evs, out))"

text \<open>
  \<^verbatim>\<open>TicketPanelView.close_ticket\<close>, the close button of the panel: \<open>kind\<close> and \<open>cid\<close>
  are the kind and the id of \<^verbatim>\<open>interaction.channel\<close>.
\<close>

definition close_ticket ::
    "db \<Rightarrow> guild \<Rightarrow> channel_kind \<Rightarrow> int \<Rightarrow> member \<Rightarrow> message list option \<Rightarrow> bool \<Rightarrow> db \<times> event list \<times> outcome" where
  "close_ticket d g kind cid u history send_ok =
     (if kind \<noteq> TextChannel then (d, [Reply NotInTextChannel], Inr NotInTextChannel)
      else deferred (ticket_close_logic d g cid u history send_ok))"

text \<open>
  The callback \<^verbatim>\<open>_close\<close> of the button that \<^verbatim>\<open>open_ticket\<close> posts into the new
  channel. It closes over the guild, the new channel \<open>cid\<close> and the id \<open>opener_id\<close> of
  the user who opened the ticket, and checks the presser against \<open>opener_id\<close> before it
  calls \<^verbatim>\<open>ticket_close_logic\<close>.
\<close>

definition inline_close ::
    "db \<Rightarrow> guild \<Rightarrow> int \<Rightarrow> int \<Rightarrow> member \<Rightarrow> message list option \<Rightarrow> bool \<Rightarrow> db \<times> event list \<times> outcome" where
  "inline_close d g cid opener_id u history send_ok =
     (if u_id u \<noteq> opener_id \<and> \<not> manage_channels u
      then (d, [Reply Forbidden], Inr Forbidden)
      else deferred (ticket_close_logic d g cid u history send_ok))"

text \<open>
  The command \<^verbatim>\<open>/ticketclose\<close> under its decorator \<^verbatim>\<open>@staff_check()\<close>, whose
  predicate raises unless the caller has \<^verbatim>\<open>manage_guild\<close>.
\<close>

definition ticketclose ::
    "db \<Rightarrow> guild \<Rightarrow> channel_kind \<Rightarrow> int \<Rightarrow> member \<Rightarrow> message list option \<Rightarrow> bool \<Rightarrow> db \<times> event list \<times> outcome" where
  "ticketclose d g kind cid u history send_ok =
     (if \<not> manage_guild u then (d, [Reply StaffCheckFailed], Inr StaffCheckFailed)
      else if kind \<noteq> TextChannel then (d, [Reply NotInTextChannel], Inr NotInTextChannel)
      else deferred (ticket_close_logic d g cid u history send_ok))"

subsection \<open>Runs of the subsystem\<close>

text \<open>
  One invocation of a handler that can write the \<^verbatim>\<open>tickets\<close> table, with everything
  the platform supplies to it; a run applies a list of them in order, each to the
  database the previous one left.
\<close>

datatype op =
    OpenTicket guild member string "int option"
  | CloseTicket guild channel_kind int member "message list option" bool
  | InlineClose guild int int member "message list option" bool
  | TicketCloseCmd guild channel_kind int member "message list option" bool

fun step :: "db \<Rightarrow> op \<Rightarrow> db" where
  "step d (OpenTicket g u now created) = fst (open_ticket d g u now created)"
| "step d (CloseTicket g kind cid u history send_ok) =
     fst (close_ticket d g kind cid u history send_ok)"
| "step d (InlineClose g cid opener_id u history send_ok) =
     fst (inline_close d g cid opener_id u history send_ok)"
| "step d (TicketCloseCmd g kind cid u history send_ok) =
     fst (ticketclose d g kind cid u history send_ok)"

definition run :: "db \<Rightarrow> op list \<Rightarrow> db" where
  "run d ops = foldl step d ops"

text \<open>The rows of a table that are open for a user in a guild, and for a channel.\<close>

definition open_rows_of_user :: "ticket_row list \<Rightarrow> int \<Rightarrow> int \<Rightarrow> ticket_row list" where
  "open_rows_of_user ts gid uid =
     filter (\<lambda>r. guild_id r = gid \<and> user_id r = uid \<and> open_flag r = 1) ts"

definition open_rows_of_channel :: "ticket_row list \<Rightarrow> int \<Rightarrow> int \<Rightarrow> ticket_row list" where
  "open_rows_of_channel ts gid cid =
     filter (\<lambda>r. guild_id r = gid \<and> channel_id r = cid \<and> open_flag r = 1) ts"


text \<open>The columns of a row that no statement of the program ever updates.\<close>

definition fixed_columns :: "ticket_row \<Rightarrow> int \<times> int \<times> int \<times> string" where
  "fixed_columns r = (guild_id r, user_id r, channel_id r, created_at r)"

text \<open>All rows of a channel, open or closed: the rows the UPDATE of a close touches.\<close>

definition rows_of_channel :: "ticket_row list \<Rightarrow> int \<Rightarrow> int \<Rightarrow> ticket_row list" where
  "rows_of_channel ts gid cid = filter (\<lambda>r. guild_id r = gid \<and> channel_id r = cid) ts"

text \<open>No two rows of the table are about the same channel of the same guild.\<close>

definition one_row_per_channel :: "ticket_row list \<Rightarrow> bool" where
  "one_row_per_channel ts = distinct (map (\<lambda>r. (guild_id r, channel_id r)) ts)"

text \<open>
  The platform never hands out the id of a channel twice: in a run, the channel that
  \<^verbatim>\<open>create_text_channel\<close> answers with is in no row the table already has.
\<close>

fun fresh_for :: "db \<Rightarrow> op \<Rightarrow> bool" where
  "fresh_for d (OpenTicket g u now (Some cid)) =
     ((g_id g, cid) \<notin> set (map (\<lambda>r. (guild_id r, channel_id r)) (tickets d)))"
| "fresh_for d x = True"

fun fresh_channels :: "db \<Rightarrow> op list \<Rightarrow> bool" where
  "fresh_channels d [] = True"
| "fresh_channels d (x # xs) = (fresh_for d x \<and> fresh_channels (step d x) xs)"

subsection \<open>The order of effects\<close>

fun is_commit_update :: "event \<Rightarrow> bool" where
  "is_commit_update (CommitUpdate gid cid) = True"
| "is_commit_update e = False"

fun is_send_transcript :: "event \<Rightarrow> bool" where
  "is_send_transcript (SendTranscript cid t) = True"
| "is_send_transcript e = False"

text \<open>
  In a list of effects, a transcript is sent and the UPDATE is committed later than the
  first such send; and the other way round.
\<close>

definition transcript_sent_before_commit :: "event list \<Rightarrow> bool" where
  "transcript_sent_before_commit evs =
     (case dropWhile (\<lambda>e. \<not> is_send_transcript e) evs of
        [] \<Rightarrow> False
      | e # rest \<Rightarrow> list_ex is_commit_update rest)"

definition commit_before_transcript_sent :: "event list \<Rightarrow> bool" where
  "commit_before_transcript_sent evs =
     (case dropWhile (\<lambda>e. \<not> is_commit_update e) evs of
        [] \<Rightarrow> False
      | e # rest \<Rightarrow> list_ex is_send_transcript rest)"

subsection \<open>A guild, its members and two histories, for the examples\<close>

definition shop_guild :: guild where
  "shop_guild =
     \<lparr>g_id = 1, me_manage_channels = True, me_manage_roles = True,
      get_channel = [50 \<mapsto> CategoryChannel, 100 \<mapsto> TextChannel]\<rparr>"

definition shop_config :: guild_config_row where
  "shop_config =
     \<lparr>log_channel_id = Some 10, welcome_channel_id = Some 11, autorole_id = None,
      ticket_category_id = Some 50, anti_links = Some 0\<rparr>"

definition ana :: member where
  "ana = \<lparr>u_id = 7, u_name = ''ana'', manage_channels = False, manage_guild = False\<rparr>"

definition bruno :: member where
  "bruno = \<lparr>u_id = 8, u_name = ''bruno'', manage_channels = False, manage_guild = False\<rparr>"

definition carla :: member where
  "carla = \<lparr>u_id = 9, u_name = ''carla'', manage_channels = True, manage_guild = True\<rparr>"

definition ticket_100 :: ticket_row where
  "ticket_100 =
     \<lparr>guild_id = 1, user_id = 7, channel_id = 100, open_flag = 1,
      created_at = ''2024-03-07T14:00:00''\<rparr>"

definition db_empty :: db where
  "db_empty = \<lparr>guild_config = [1 \<mapsto> shop_config], tickets = []\<rparr>"

definition db_open :: db where
  "db_open = \<lparr>guild_config = [1 \<mapsto> shop_config], tickets = [ticket_100]\<rparr>"

definition db_closed :: db where
  "db_closed =
     \<lparr>guild_config = [1 \<mapsto> shop_config], tickets = [ticket_100\<lparr>open_flag := 0\<rparr>]\<rparr>"

definition two_messages :: "message list" where
  "two_messages =
     [\<lparr>msg_created_at = \<lparr>dt_month = 3, dt_day = 7, dt_hour = 14, dt_minute = 5\<rparr>,
       author = ''ana'', content = ''oi'' @ [newline] @ ''tudo bem?''\<rparr>,
      \<lparr>msg_created_at = \<lparr>dt_month = 3, dt_day = 7, dt_hour = 14, dt_minute = 6\<rparr>,
       author = ''carla'', content = []\<rparr>]"

text \<open>
  The scenario of the specification: Ana opens a ticket and gets channel 100, presses
  the button again, Carla (staff) closes channel 100 from the panel, and Ana opens a
  third time and gets channel 101.
\<close>

definition scenario :: "op list" where
  "scenario =
     [OpenTicket shop_guild ana ''2024-03-07T14:00:00'' (Some 100),
      OpenTicket shop_guild ana ''2024-03-07T14:01:00'' (Some 101),
      CloseTicket shop_guild TextChannel 100 carla (Some two_messages) True,
      OpenTicket shop_guild ana ''2024-03-07T15:00:00'' (Some 101)]"

section \<open>Properties\<close>

subsection \<open>Unfolding the handlers and the examples\<close>

lemmas handler_defs =
  open_ticket_def open_precheck_def open_record_def ticket_close_logic_def
  close_ticket_def inline_close_def ticketclose_def deferred_def get_cfg_def dict_get_def
  falsy_def find_open_by_user_def find_open_by_channel_def record_opened_def
  mark_closed_def run_def Let_def

lemmas example_defs =
  shop_guild_def shop_config_def ana_def bruno_def carla_def ticket_100_def db_empty_def
  db_open_def db_closed_def two_messages_def scenario_def

subsection \<open>Queries and updates of the table\<close>

lemma find_open_by_user_None:
  "find_open_by_user ts gid uid = None \<longleftrightarrow> open_rows_of_user ts gid uid = []"
  by (auto simp: find_open_by_user_def open_rows_of_user_def find_None_iff filter_empty_conv)

lemma find_open_by_channel_None:
  "find_open_by_channel ts gid cid = None \<longleftrightarrow> open_rows_of_channel ts gid cid = []"
  by (auto simp: find_open_by_channel_def open_rows_of_channel_def find_None_iff
      filter_empty_conv)

lemma find_SomeD: "find P xs = Some x \<Longrightarrow> P x \<and> x \<in> set xs"
  by (induction xs) (auto split: if_splits)


lemma open_rows_of_channel_mark_closed:
  "open_rows_of_channel (mark_closed ts gid cid) gid cid = []"
  by (induction ts) (auto simp: mark_closed_def open_rows_of_channel_def)

lemma length_mark_closed: "length (mark_closed ts gid cid) = length ts"
  by (simp add: mark_closed_def)

lemma fixed_columns_mark_closed:
  "map fixed_columns (mark_closed ts gid cid) = map fixed_columns ts"
  by (induction ts) (auto simp: mark_closed_def fixed_columns_def)

lemma fixed_columns_record_opened:
  "map fixed_columns (record_opened ts gid uid cid now) =
   map fixed_columns ts @ [(gid, uid, cid, now)]"
  by (simp add: record_opened_def fixed_columns_def)

subsection \<open>What a handler can do to the table\<close>

lemma fst_deferred: "fst (deferred res) = fst res"
  by (cases res) (simp add: deferred_def)

lemma tickets_open_ticket:
  "tickets (fst (open_ticket d g u now created)) = tickets d \<or>
   (find_open_by_user (tickets d) (g_id g) (u_id u) = None \<and>
    (\<exists>cid. created = Some cid \<and> tickets (fst (open_ticket d g u now created)) =
       record_opened (tickets d) (g_id g) (u_id u) cid now))"
  by (auto simp: open_ticket_def open_precheck_def open_record_def Let_def
           split: option.splits)

lemma tickets_ticket_close_logic:
  "tickets (fst (ticket_close_logic d g cid u history send_ok)) = tickets d \<or>
   tickets (fst (ticket_close_logic d g cid u history send_ok)) =
     mark_closed (tickets d) (g_id g) cid"
  by (auto simp: ticket_close_logic_def Let_def split: option.splits)

lemma tickets_step:
  "tickets (step d x) = tickets d \<or>
   (\<exists>gid cid. tickets (step d x) = mark_closed (tickets d) gid cid) \<or>
   (\<exists>g u now cid. x = OpenTicket g u now (Some cid) \<and>
       find_open_by_user (tickets d) (g_id g) (u_id u) = None \<and>
       tickets (step d x) = record_opened (tickets d) (g_id g) (u_id u) cid now)"
proof (cases x)
  case (OpenTicket g u now created)
  then show ?thesis using tickets_open_ticket [of d g u now created]
    by (simp only: step.simps) metis
next
  case (CloseTicket g kind cid u history send_ok)
  then show ?thesis using tickets_ticket_close_logic [of d g cid u history send_ok]
    by (auto simp: close_ticket_def fst_deferred)
next
  case (InlineClose g cid opener_id u history send_ok)
  then show ?thesis using tickets_ticket_close_logic [of d g cid u history send_ok]
    by (auto simp: inline_close_def fst_deferred)
next
  case (TicketCloseCmd g kind cid u history send_ok)
  then show ?thesis using tickets_ticket_close_logic [of d g cid u history send_ok]
    by (auto simp: ticketclose_def fst_deferred)
qed

subsection \<open>One open ticket for each user of a guild\<close>




lemma distinct_map_count_le_1:
  "distinct (map f xs) \<Longrightarrow> length (filter (\<lambda>x. f x = k) xs) \<le> Suc 0"
proof (induction xs)
  case Nil
  then show ?case by simp
next
  case (Cons a xs)
  show ?case
  proof (cases "f a = k")
    case True
    from Cons.prems have "f a \<notin> f ` set xs" by simp
    with True have "\<forall>x \<in> set xs. f x \<noteq> k" by blast
    then have "filter (\<lambda>x. f x = k) xs = []" by (simp add: filter_empty_conv)
    with True show ?thesis by simp
  next
    case False
    with Cons show ?thesis by simp
  qed
qed





lemma open_ticket_while_open:
  "open_rows_of_user (tickets d) (g_id g) (u_id u) \<noteq> [] \<Longrightarrow>
   \<exists>r. open_ticket d g u now created = (d, [Defer, Reply r], Inr r)"
  by (auto simp: open_ticket_def open_precheck_def Let_def find_open_by_user_None [symmetric]
           split: option.splits)

lemma scenario_run:
  "tickets (run db_empty scenario) =
     [\<lparr>guild_id = 1, user_id = 7, channel_id = 100, open_flag = 0,
       created_at = ''2024-03-07T14:00:00''\<rparr>,
      \<lparr>guild_id = 1, user_id = 7, channel_id = 101, open_flag = 1,
       created_at = ''2024-03-07T15:00:00''\<rparr>]"
  by (simp add: example_defs handler_defs)



text \<open>
  The invariant is one of uninterrupted handlers. \<^verbatim>\<open>open_ticket\<close> awaits
  \<^verbatim>\<open>create_text_channel\<close> between its duplicate check and its INSERT, and the table
  has no uniqueness constraint: when two presses of the same user are both checked
  before either is recorded, both pass and the table gets two open rows.
\<close>

lemma open_ticket_interleaved:
  "open_precheck db_empty shop_guild ana = None \<and>
   open_rows_of_user
     (tickets (fst (open_record (fst (open_record db_empty shop_guild ana ''t1'' 100))
        shop_guild ana ''t2'' 101))) 1 7 =
     [\<lparr>guild_id = 1, user_id = 7, channel_id = 100, open_flag = 1, created_at = ''t1''\<rparr>,
      \<lparr>guild_id = 1, user_id = 7, channel_id = 101, open_flag = 1, created_at = ''t2''\<rparr>]"
  by (simp add: example_defs handler_defs open_rows_of_user_def)

subsection \<open>Closing a channel that has no open ticket\<close>

lemma close_logic_not_a_ticket:
  "find_open_by_channel (tickets d) (g_id g) cid = None \<Longrightarrow>
   ticket_close_logic d g cid u history send_ok = (d, [Reply NotATicket], Inr NotATicket)"
  by (simp add: ticket_close_logic_def)

lemma close_logic_closed_result:
  "snd (snd (ticket_close_logic d g cid u history send_ok)) = Inr TicketClosed \<Longrightarrow>
   fst (ticket_close_logic d g cid u history send_ok) =
     d\<lparr>tickets := mark_closed (tickets d) (g_id g) cid\<rparr>"
  by (auto simp: ticket_close_logic_def Let_def split: option.splits if_splits)

text \<open>
  C2. When the table has no open row for the guild and the channel (the channel never
  was a ticket, or its ticket is closed), \<^verbatim>\<open>ticket_close_logic\<close> replies NotATicket and
  returns the database as it was, and so does the close button of the panel. After a
  close that succeeded the table has no open row for the channel, so a second close of
  the same channel, by whoever and whatever the platform answers, replies NotATicket
  and changes nothing.
\<close>

theorem close_is_idempotent:
  "(open_rows_of_channel (tickets d) (g_id g) cid = [] \<longrightarrow>
      ticket_close_logic d g cid u history send_ok = (d, [Reply NotATicket], Inr NotATicket) \<and>
      close_ticket d g TextChannel cid u history send_ok =
        (d, [Defer, Reply NotATicket], Inr NotATicket)) \<and>
   (snd (snd (ticket_close_logic d g cid u history send_ok)) = Inr TicketClosed \<longrightarrow>
      open_rows_of_channel
        (tickets (fst (ticket_close_logic d g cid u history send_ok))) (g_id g) cid = [] \<and>
      ticket_close_logic (fst (ticket_close_logic d g cid u history send_ok))
          g cid u2 history2 send_ok2 =
        (fst (ticket_close_logic d g cid u history send_ok), [Reply NotATicket],
         Inr NotATicket))"
proof (intro conjI impI)
  assume none: "open_rows_of_channel (tickets d) (g_id g) cid = []"
  then have f: "find_open_by_channel (tickets d) (g_id g) cid = None"
    by (simp add: find_open_by_channel_None)
  from close_logic_not_a_ticket [OF f]
  show "ticket_close_logic d g cid u history send_ok = (d, [Reply NotATicket], Inr NotATicket)" .
  from close_logic_not_a_ticket [OF f, of u history send_ok]
  show "close_ticket d g TextChannel cid u history send_ok =
          (d, [Defer, Reply NotATicket], Inr NotATicket)"
    by (simp add: close_ticket_def deferred_def)
next
  assume ok: "snd (snd (ticket_close_logic d g cid u history send_ok)) = Inr TicketClosed"
  let ?d' = "fst (ticket_close_logic d g cid u history send_ok)"
  from close_logic_closed_result [OF ok]
  have t: "tickets ?d' = mark_closed (tickets d) (g_id g) cid" by simp
  then show none': "open_rows_of_channel (tickets ?d') (g_id g) cid = []"
    by (simp add: open_rows_of_channel_mark_closed)
  then have "find_open_by_channel (tickets ?d') (g_id g) cid = None"
    by (simp add: find_open_by_channel_None)
  then show "ticket_close_logic ?d' g cid u2 history2 send_ok2 =
               (?d', [Reply NotATicket], Inr NotATicket)"
    by (rule close_logic_not_a_ticket)
qed

theorem close_is_idempotent_witness:
  "open_rows_of_channel (tickets db_closed) (g_id shop_guild) 100 = [] \<and>
   ticket_close_logic db_closed shop_guild 100 ana (Some two_messages) True =
     (db_closed, [Reply NotATicket], Inr NotATicket) \<and>
   snd (snd (ticket_close_logic db_open shop_guild 100 ana (Some two_messages) True)) =
     Inr TicketClosed \<and>
   ticket_close_logic
       (fst (ticket_close_logic db_open shop_guild 100 ana (Some two_messages) True))
       shop_guild 100 carla (Some two_messages) True =
     (fst (ticket_close_logic db_open shop_guild 100 ana (Some two_messages) True),
      [Reply NotATicket], Inr NotATicket)"
proof -
  have a: "open_rows_of_channel (tickets db_closed) (g_id shop_guild) 100 = []"
    by (simp add: example_defs open_rows_of_channel_def)
  have b: "snd (snd (ticket_close_logic db_open shop_guild 100 ana (Some two_messages) True)) =
     Inr TicketClosed"
    by (simp add: example_defs handler_defs)
  from close_is_idempotent [of db_closed shop_guild 100 ana "Some two_messages" True]
       close_is_idempotent [of db_open shop_guild 100 ana "Some two_messages" True
         carla "Some two_messages" True]
       a b
  show ?thesis by blast
qed

subsection \<open>The order of the commit and the transcript\<close>

text \<open>
  C3, as the claim states it, fails: in a close that succeeds the UPDATE is committed
  first and the transcript is sent to the channel after it, and when sending the
  transcript fails the ticket is closed already. Ana closes her ticket of channel 100:
  no transcript is sent before the commit; and with a failing \<^verbatim>\<open>ch.send\<close> the handler
  ends in the exception, having sent no transcript, with the row closed.
\<close>

theorem transcript_before_commit_counterexample:
  "fst (snd (ticket_close_logic db_open shop_guild 100 ana (Some two_messages) True)) =
     [ReadHistory 100, CommitUpdate 1 100,
      SendTranscript 100 (build_transcript two_messages), Reply TicketClosed] \<and>
   \<not> transcript_sent_before_commit
       (fst (snd (ticket_close_logic db_open shop_guild 100 ana (Some two_messages) True))) \<and>
   ticket_close_logic db_open shop_guild 100 ana (Some two_messages) False =
     (db_closed, [ReadHistory 100, CommitUpdate 1 100], Inl HTTPException) \<and>
   open_rows_of_channel (tickets db_closed) 1 100 = []"
  by (simp add: example_defs handler_defs transcript_sent_before_commit_def
      open_rows_of_channel_def)

text \<open>
  C3, amended. In every close that succeeds the history is read and the transcript is
  built from it before the UPDATE is committed, and the transcript is sent to the
  channel after the commit and before the reply: the effects are exactly the four
  below, in this order. A failure while the history is read leaves the database as it
  was, so the ticket stays open; a failure to send the transcript happens after the
  commit and leaves the ticket closed.
\<close>

theorem commit_precedes_transcript:
  "(ticket_close_logic d g cid u history send_ok = (d', evs, Inr TicketClosed) \<longrightarrow>
      (\<exists>msgs. history = Some msgs \<and>
         evs = [ReadHistory cid, CommitUpdate (g_id g) cid,
                SendTranscript cid (build_transcript msgs), Reply TicketClosed]) \<and>
      commit_before_transcript_sent evs \<and> \<not> transcript_sent_before_commit evs \<and>
      d' = d\<lparr>tickets := mark_closed (tickets d) (g_id g) cid\<rparr>) \<and>
   fst (ticket_close_logic d g cid u None send_ok) = d \<and>
   (snd (snd (ticket_close_logic d g cid u history False)) = Inl HTTPException \<and>
    history \<noteq> None \<longrightarrow>
      ticket_close_logic d g cid u history False =
        (d\<lparr>tickets := mark_closed (tickets d) (g_id g) cid\<rparr>,
         [ReadHistory cid, CommitUpdate (g_id g) cid], Inl HTTPException))"
proof (intro conjI impI)
  assume ok: "ticket_close_logic d g cid u history send_ok = (d', evs, Inr TicketClosed)"
  then show ex: "\<exists>msgs. history = Some msgs \<and>
         evs = [ReadHistory cid, CommitUpdate (g_id g) cid,
                SendTranscript cid (build_transcript msgs), Reply TicketClosed]"
    by (auto simp: ticket_close_logic_def Let_def split: option.splits if_splits)
  then show "commit_before_transcript_sent evs"
    by (auto simp: commit_before_transcript_sent_def)
  from ex show "\<not> transcript_sent_before_commit evs"
    by (auto simp: transcript_sent_before_commit_def)
  from ok show "d' = d\<lparr>tickets := mark_closed (tickets d) (g_id g) cid\<rparr>"
    by (auto simp: ticket_close_logic_def Let_def split: option.splits if_splits)
next
  show "fst (ticket_close_logic d g cid u None send_ok) = d"
    by (auto simp: ticket_close_logic_def Let_def split: option.splits)
next
  assume "snd (snd (ticket_close_logic d g cid u history False)) = Inl HTTPException \<and>
    history \<noteq> None"
  then show "ticket_close_logic d g cid u history False =
        (d\<lparr>tickets := mark_closed (tickets d) (g_id g) cid\<rparr>,
         [ReadHistory cid, CommitUpdate (g_id g) cid], Inl HTTPException)"
    by (auto simp: ticket_close_logic_def Let_def split: option.splits if_splits)
qed

theorem commit_precedes_transcript_witness:
  "ticket_close_logic db_open shop_guild 100 ana (Some two_messages) True =
     (db_closed,
      [ReadHistory 100, CommitUpdate 1 100,
       SendTranscript 100 (build_transcript two_messages), Reply TicketClosed],
      Inr TicketClosed) \<and>
   commit_before_transcript_sent
     [ReadHistory 100, CommitUpdate 1 100,
      SendTranscript 100 (build_transcript two_messages), Reply TicketClosed] \<and>
   fst (ticket_close_logic db_open shop_guild 100 ana None True) = db_open \<and>
   ticket_close_logic db_open shop_guild 100 ana (Some two_messages) False =
     (db_open\<lparr>tickets := mark_closed (tickets db_open) (g_id shop_guild) 100\<rparr>,
      [ReadHistory 100, CommitUpdate (g_id shop_guild) 100], Inl HTTPException)"
proof -
  have a: "ticket_close_logic db_open shop_guild 100 ana (Some two_messages) True =
     (db_closed,
      [ReadHistory 100, CommitUpdate 1 100,
       SendTranscript 100 (build_transcript two_messages), Reply TicketClosed],
      Inr TicketClosed)"
    by (simp add: example_defs handler_defs)
  have b: "snd (snd (ticket_close_logic db_open shop_guild 100 ana (Some two_messages) False)) =
     Inl HTTPException \<and> Some two_messages \<noteq> None"
    by (simp add: example_defs handler_defs)
  from commit_precedes_transcript [of db_open shop_guild 100 ana "Some two_messages" True
         db_closed "[ReadHistory 100, CommitUpdate 1 100,
       SendTranscript 100 (build_transcript two_messages), Reply TicketClosed]"]
       a b
  show ?thesis by blast
qed

subsection \<open>Who may close\<close>

text \<open>
  C4. The channel has an open ticket, and the invoking member is neither the
  \<^verbatim>\<open>user_id\<close> of its row nor holds \<^verbatim>\<open>manage_channels\<close>. Then
  \<^verbatim>\<open>ticket_close_logic\<close>, the close button of the panel and the inline close button of
  the ticket reply Forbidden and return the database as it was: the row stays open and
  no column of any row changes. The command \<^verbatim>\<open>/ticketclose\<close> changes nothing either:
  it replies Forbidden to a caller who passes \<^verbatim>\<open>staff_check\<close>, and a caller who does
  not is refused by \<^verbatim>\<open>staff_check\<close> before the command runs.
\<close>

theorem close_forbidden:
  assumes "find_open_by_channel (tickets d) (g_id g) cid = Some row"
      and "u_id u \<noteq> user_id row" and "\<not> manage_channels u"
  shows "ticket_close_logic d g cid u history send_ok = (d, [Reply Forbidden], Inr Forbidden) \<and>
         close_ticket d g TextChannel cid u history send_ok =
           (d, [Defer, Reply Forbidden], Inr Forbidden) \<and>
         inline_close d g cid (user_id row) u history send_ok =
           (d, [Reply Forbidden], Inr Forbidden) \<and>
         ticketclose d g TextChannel cid u history send_ok =
           (if manage_guild u then (d, [Defer, Reply Forbidden], Inr Forbidden)
            else (d, [Reply StaffCheckFailed], Inr StaffCheckFailed)) \<and>
         find_open_by_channel (tickets d) (g_id g) cid = Some row \<and> open_flag row = 1"
proof -
  have l: "ticket_close_logic d g cid u history send_ok = (d, [Reply Forbidden], Inr Forbidden)"
    using assms by (simp add: ticket_close_logic_def)
  have o: "open_flag row = 1"
    using find_SomeD [OF assms(1) [unfolded find_open_by_channel_def]] by simp
  from l o assms show ?thesis
    by (simp add: close_ticket_def inline_close_def ticketclose_def deferred_def)
qed

theorem close_forbidden_witness:
  "find_open_by_channel (tickets db_open) (g_id shop_guild) 100 = Some ticket_100 \<and>
   u_id bruno \<noteq> user_id ticket_100 \<and> \<not> manage_channels bruno \<and>
   ticket_close_logic db_open shop_guild 100 bruno (Some two_messages) True =
     (db_open, [Reply Forbidden], Inr Forbidden) \<and>
   inline_close db_open shop_guild 100 (user_id ticket_100) bruno (Some two_messages) True =
     (db_open, [Reply Forbidden], Inr Forbidden) \<and>
   close_ticket db_open shop_guild TextChannel 100 bruno (Some two_messages) True =
     (db_open, [Defer, Reply Forbidden], Inr Forbidden)"
proof -
  have a: "find_open_by_channel (tickets db_open) (g_id shop_guild) 100 = Some ticket_100"
    by (simp add: example_defs find_open_by_channel_def)
  have b: "u_id bruno \<noteq> user_id ticket_100" by (simp add: example_defs)
  have c: "\<not> manage_channels bruno" by (simp add: example_defs)
  from close_forbidden [OF a b c, of "Some two_messages" True] a b c
  show ?thesis by simp
qed

text \<open>
  C10, as the claim states it, fails for the inline close button: \<^verbatim>\<open>_close\<close> compares
  the presser with the opener of the ticket before it looks any row up. The ticket of
  channel 100 is closed already, so the table has no open row for the channel; Bruno,
  who is neither the opener nor staff, presses the inline button and is answered
  Forbidden, not NotATicket.
\<close>

theorem not_a_ticket_precedence_counterexample:
  "find_open_by_channel (tickets db_closed) (g_id shop_guild) 100 = None \<and>
   inline_close db_closed shop_guild 100 (u_id ana) bruno (Some two_messages) True =
     (db_closed, [Reply Forbidden], Inr Forbidden)"
  by (simp add: example_defs handler_defs)

text \<open>
  C10, amended. On a channel that has no open row, \<^verbatim>\<open>ticket_close_logic\<close> and the
  close button of the panel, which calls it directly, reply NotATicket whoever invokes
  them: there the owner-or-staff check comes after the lookup. The two other entry
  points have a gate of their own in front of the lookup: the inline button answers
  Forbidden to a presser who is neither the opener nor holds \<^verbatim>\<open>manage_channels\<close>, and
  \<^verbatim>\<open>/ticketclose\<close> refuses a caller without \<^verbatim>\<open>manage_guild\<close>; who passes the gate is
  answered NotATicket. In every case the database stays as it was.
\<close>

theorem not_a_ticket_precedence:
  assumes "find_open_by_channel (tickets d) (g_id g) cid = None"
  shows "ticket_close_logic d g cid u history send_ok = (d, [Reply NotATicket], Inr NotATicket) \<and>
         close_ticket d g TextChannel cid u history send_ok =
           (d, [Defer, Reply NotATicket], Inr NotATicket) \<and>
         inline_close d g cid opener_id u history send_ok =
           (if u_id u \<noteq> opener_id \<and> \<not> manage_channels u
            then (d, [Reply Forbidden], Inr Forbidden)
            else (d, [Defer, Reply NotATicket], Inr NotATicket)) \<and>
         ticketclose d g TextChannel cid u history send_ok =
           (if \<not> manage_guild u then (d, [Reply StaffCheckFailed], Inr StaffCheckFailed)
            else (d, [Defer, Reply NotATicket], Inr NotATicket))"
  using close_logic_not_a_ticket [OF assms, of u history send_ok]
  by (simp add: close_ticket_def inline_close_def ticketclose_def deferred_def)

theorem not_a_ticket_precedence_witness:
  "find_open_by_channel (tickets db_closed) (g_id shop_guild) 100 = None \<and>
   ticket_close_logic db_closed shop_guild 100 bruno (Some two_messages) True =
     (db_closed, [Reply NotATicket], Inr NotATicket) \<and>
   close_ticket db_closed shop_guild TextChannel 100 bruno (Some two_messages) True =
     (db_closed, [Defer, Reply NotATicket], Inr NotATicket) \<and>
   inline_close db_closed shop_guild 100 (u_id ana) ana (Some two_messages) True =
     (db_closed, [Defer, Reply NotATicket], Inr NotATicket) \<and>
   ticketclose db_closed shop_guild TextChannel 100 bruno (Some two_messages) True =
     (db_closed, [Reply StaffCheckFailed], Inr StaffCheckFailed)"
proof -
  have a: "find_open_by_channel (tickets db_closed) (g_id shop_guild) 100 = None"
    by (simp add: example_defs find_open_by_channel_def)
  from not_a_ticket_precedence [OF a, of bruno "Some two_messages" True]
       not_a_ticket_precedence [OF a, of ana "Some two_messages" True "u_id ana"] a
  show ?thesis by (simp add: example_defs)
qed

subsection \<open>Opening while a ticket is open, and the checks before provisioning\<close>

lemma ticket_cat_of_config:
  "dict_get (get_cfg d gid) ''ticket_cat'' = Option.bind (guild_config d gid) ticket_category_id"
  by (simp add: dict_get_def get_cfg_def split: option.splits)

text \<open>
  C6, as the claim states it, fails in two ways. The user has an open ticket in both
  cases. First, the channel of the ticket was deleted on the platform: the reply is the
  DuplicateTicket one, but it carries \<^verbatim>\<open>#apagado\<close> and no reference to a channel.
  Second, the bot has lost \<^verbatim>\<open>manage_roles\<close>: the permission check comes first and
  the reply is InsufficientPermissions.
\<close>

theorem repeated_open_counterexample:
  "find_open_by_user (tickets db_open) 1 (u_id ana) = Some ticket_100 \<and>
   open_ticket db_open (shop_guild\<lparr>get_channel := [50 \<mapsto> CategoryChannel]\<rparr>) ana
       ''2024-03-07T14:01:00'' (Some 101) =
     (db_open, [Defer, Reply (DuplicateTicket None)], Inr (DuplicateTicket None)) \<and>
   open_ticket db_open (shop_guild\<lparr>me_manage_roles := False\<rparr>) ana
       ''2024-03-07T14:01:00'' (Some 101) =
     (db_open, [Defer, Reply InsufficientPermissions], Inr InsufficientPermissions)"
  by (simp add: example_defs handler_defs)

text \<open>
  C6, amended. When the user has an open row in the guild, \<^verbatim>\<open>open_ticket\<close> returns the
  database as it was and its only effects are the acknowledgement and one reply: no
  channel is created and no row is inserted. When moreover the bot holds both
  permissions and the guild's configured ticket category is a category channel of the
  guild, the reply is the DuplicateTicket one; it refers to the channel of the user's
  first open row when the guild still has that channel, and says \<^verbatim>\<open>#apagado\<close> when it
  has not.
\<close>

theorem repeated_open_rejected:
  assumes "find_open_by_user (tickets d) (g_id g) (u_id u) = Some row"
  shows "(\<exists>r. open_ticket d g u now created = (d, [Defer, Reply r], Inr r)) \<and>
         (me_manage_channels g \<and> me_manage_roles g \<and>
          Option.bind (guild_config d (g_id g)) ticket_category_id = Some cat \<and> cat \<noteq> 0 \<and>
          get_channel g cat = Some CategoryChannel \<longrightarrow>
            open_ticket d g u now created =
              (d,
               [Defer, Reply (DuplicateTicket
                  (if get_channel g (channel_id row) = None then None
                   else Some (channel_id row)))],
               Inr (DuplicateTicket
                  (if get_channel g (channel_id row) = None then None
                   else Some (channel_id row))))) \<and>
         guild_id row = g_id g \<and> user_id row = u_id u \<and> open_flag row = 1 \<and>
         row \<in> set (tickets d)"
proof -
  from assms have "open_rows_of_user (tickets d) (g_id g) (u_id u) \<noteq> []"
    using find_open_by_user_None [of "tickets d" "g_id g" "u_id u"] by simp
  from open_ticket_while_open [OF this, of now created]
  have a: "\<exists>r. open_ticket d g u now created = (d, [Defer, Reply r], Inr r)" .
  have b: "open_ticket d g u now created =
              (d,
               [Defer, Reply (DuplicateTicket
                  (if get_channel g (channel_id row) = None then None
                   else Some (channel_id row)))],
               Inr (DuplicateTicket
                  (if get_channel g (channel_id row) = None then None
                   else Some (channel_id row))))"
    if "me_manage_channels g \<and> me_manage_roles g \<and>
          Option.bind (guild_config d (g_id g)) ticket_category_id = Some cat \<and> cat \<noteq> 0 \<and>
          get_channel g cat = Some CategoryChannel"
    using that assms
    by (simp add: open_ticket_def open_precheck_def ticket_cat_of_config falsy_def)
  from find_SomeD [OF assms [unfolded find_open_by_user_def]]
  have c: "guild_id row = g_id g \<and> user_id row = u_id u \<and> open_flag row = 1 \<and>
         row \<in> set (tickets d)" by simp
  from a b c show ?thesis by blast
qed

theorem repeated_open_rejected_witness:
  "find_open_by_user (tickets db_open) (g_id shop_guild) (u_id ana) = Some ticket_100 \<and>
   open_ticket db_open shop_guild ana ''2024-03-07T14:01:00'' (Some 101) =
     (db_open, [Defer, Reply (DuplicateTicket (Some 100))], Inr (DuplicateTicket (Some 100)))"
proof -
  have a: "find_open_by_user (tickets db_open) (g_id shop_guild) (u_id ana) = Some ticket_100"
    by (simp add: example_defs find_open_by_user_def)
  have b: "me_manage_channels shop_guild \<and> me_manage_roles shop_guild \<and>
          Option.bind (guild_config db_open (g_id shop_guild)) ticket_category_id = Some 50 \<and>
          (50::int) \<noteq> 0 \<and> get_channel shop_guild 50 = Some CategoryChannel"
    by (simp add: example_defs)
  have c: "get_channel shop_guild (channel_id ticket_100) = Some TextChannel"
    by (simp add: example_defs)
  from repeated_open_rejected [OF a, of "''2024-03-07T14:01:00''" "Some 101" 50] a b c
  show ?thesis by (simp add: ticket_100_def)
qed

text \<open>
  C7. When the bot lacks \<^verbatim>\<open>manage_channels\<close> or \<^verbatim>\<open>manage_roles\<close>, \<^verbatim>\<open>open_ticket\<close>
  replies InsufficientPermissions; when it holds both and the guild has no ticket
  category configured (no row in \<^verbatim>\<open>guild_config\<close>, or a NULL or zero
  \<^verbatim>\<open>ticket_category_id\<close>), it replies NotConfigured. In both cases the database is
  returned as it was and the only effects are the acknowledgement and the reply: no
  channel is created and no row is inserted, whatever the table holds and whatever the
  platform would have answered. The permission check is the first of the two, so it
  decides when both conditions hold.
\<close>

theorem open_checks_before_provisioning:
  "(\<not> (me_manage_channels g \<and> me_manage_roles g) \<longrightarrow>
      open_ticket d g u now created =
        (d, [Defer, Reply InsufficientPermissions], Inr InsufficientPermissions)) \<and>
   (me_manage_channels g \<and> me_manage_roles g \<and>
    (Option.bind (guild_config d (g_id g)) ticket_category_id = None \<or>
     Option.bind (guild_config d (g_id g)) ticket_category_id = Some 0) \<longrightarrow>
      open_ticket d g u now created = (d, [Defer, Reply NotConfigured], Inr NotConfigured))"
  by (auto simp: open_ticket_def open_precheck_def ticket_cat_of_config falsy_def)

theorem open_checks_before_provisioning_witness:
  "\<not> (me_manage_channels (shop_guild\<lparr>me_manage_channels := False\<rparr>) \<and>
       me_manage_roles (shop_guild\<lparr>me_manage_channels := False\<rparr>)) \<and>
   open_ticket db_empty (shop_guild\<lparr>me_manage_channels := False\<rparr>) ana
       ''2024-03-07T14:00:00'' (Some 100) =
     (db_empty, [Defer, Reply InsufficientPermissions], Inr InsufficientPermissions) \<and>
   Option.bind (guild_config (db_empty\<lparr>guild_config := Map.empty\<rparr>) (g_id shop_guild))
     ticket_category_id = None \<and>
   open_ticket (db_empty\<lparr>guild_config := Map.empty\<rparr>) shop_guild ana
       ''2024-03-07T14:00:00'' (Some 100) =
     (db_empty\<lparr>guild_config := Map.empty\<rparr>, [Defer, Reply NotConfigured], Inr NotConfigured)"
proof -
  have a: "\<not> (me_manage_channels (shop_guild\<lparr>me_manage_channels := False\<rparr>) \<and>
       me_manage_roles (shop_guild\<lparr>me_manage_channels := False\<rparr>))"
    by simp
  have b: "me_manage_channels shop_guild \<and> me_manage_roles shop_guild \<and>
    Option.bind (guild_config (db_empty\<lparr>guild_config := Map.empty\<rparr>) (g_id shop_guild))
      ticket_category_id = None"
    by (simp add: example_defs)
  from open_checks_before_provisioning
         [of "shop_guild\<lparr>me_manage_channels := False\<rparr>" db_empty ana
             "''2024-03-07T14:00:00''" "Some 100"]
       open_checks_before_provisioning
         [of shop_guild "db_empty\<lparr>guild_config := Map.empty\<rparr>" ana
             "''2024-03-07T14:00:00''" "Some 100"]
       a b
  show ?thesis by blast
qed

subsection \<open>Recording a ticket and finding it by its channel\<close>

lemma find_append_None:
  "find P xs = None \<Longrightarrow> find P (xs @ ys) = find P ys"
  by (induction xs) (auto split: if_splits)

lemma open_precheck_not_created: "open_precheck d g u \<noteq> Some (TicketCreated cid)"
  by (auto simp: open_precheck_def Let_def split: option.splits)

lemma open_ticket_created:
  "open_ticket d g u now created = (d', evs, Inr (TicketCreated cid)) \<Longrightarrow>
   created = Some cid \<and>
   tickets d' = record_opened (tickets d) (g_id g) (u_id u) cid now"
  using open_precheck_not_created [of d g u cid]
  by (auto simp: open_ticket_def open_record_def split: option.splits)

text \<open>
  C9. The INSERT of \<^verbatim>\<open>open_ticket\<close> followed at once by the SELECT of
  \<^verbatim>\<open>ticket_close_logic\<close> on the same guild and channel yields the row just inserted:
  its \<^verbatim>\<open>user_id\<close> is the user, its \<^verbatim>\<open>open\<close> is 1. The code inserts only a channel
  that \<^verbatim>\<open>create_text_channel\<close> has just made, so the table has no open row of that
  channel before: that is the hypothesis. The same holds of a whole \<^verbatim>\<open>open_ticket\<close>
  that replies TicketCreated.
\<close>

theorem record_then_find:
  assumes "open_rows_of_channel ts gid cid = []"
  shows "find_open_by_channel (record_opened ts gid uid cid now) gid cid =
           Some \<lparr>guild_id = gid, user_id = uid, channel_id = cid, open_flag = 1,
                 created_at = now\<rparr> \<and>
         map_option user_id (find_open_by_channel (record_opened ts gid uid cid now) gid cid) =
           Some uid \<and>
         map_option open_flag (find_open_by_channel (record_opened ts gid uid cid now) gid cid) =
           Some 1 \<and>
         (ts = tickets d \<and> gid = g_id g \<and> uid = u_id u \<and>
          open_ticket d g u now created = (d', evs, Inr (TicketCreated cid)) \<longrightarrow>
            map_option user_id (find_open_by_channel (tickets d') (g_id g) cid) =
              Some (u_id u))"
proof -
  from assms have n: "find_open_by_channel ts gid cid = None"
    by (simp add: find_open_by_channel_None)
  then have f: "find_open_by_channel (record_opened ts gid uid cid now) gid cid =
           Some \<lparr>guild_id = gid, user_id = uid, channel_id = cid, open_flag = 1,
                 created_at = now\<rparr>"
    by (simp add: find_open_by_channel_def record_opened_def find_append_None)
  have "map_option user_id (find_open_by_channel (tickets d') (g_id g) cid) = Some (u_id u)"
    if "ts = tickets d \<and> gid = g_id g \<and> uid = u_id u \<and>
          open_ticket d g u now created = (d', evs, Inr (TicketCreated cid))"
  proof -
    from that open_ticket_created [of d g u now created d' evs cid]
    have "tickets d' = record_opened ts gid uid cid now" by simp
    with f that show ?thesis by simp
  qed
  with f show ?thesis by simp
qed

theorem record_then_find_witness:
  "open_rows_of_channel (tickets db_closed) 1 101 = [] \<and>
   find_open_by_channel
       (record_opened (tickets db_closed) 1 7 101 ''2024-03-07T15:00:00'') 1 101 =
     Some \<lparr>guild_id = 1, user_id = 7, channel_id = 101, open_flag = 1,
           created_at = ''2024-03-07T15:00:00''\<rparr>"
proof -
  have a: "open_rows_of_channel (tickets db_closed) 1 101 = []"
    by (simp add: example_defs open_rows_of_channel_def)
  from record_then_find [OF a, of 7 "''2024-03-07T15:00:00''"] a
  show ?thesis by simp
qed

subsection \<open>What a close changes, and what nothing changes\<close>

lemma mark_closed_other_rows:
  "i < length ts \<Longrightarrow> guild_id (ts ! i) \<noteq> gid \<or> channel_id (ts ! i) \<noteq> cid \<Longrightarrow>
   mark_closed ts gid cid ! i = ts ! i"
  by (auto simp: mark_closed_def)

lemma mark_closed_no_rows:
  "rows_of_channel ts gid cid = [] \<Longrightarrow> mark_closed ts gid cid = ts"
  by (induction ts) (auto simp: mark_closed_def rows_of_channel_def split: if_splits)

lemma find_open_no_rows:
  "rows_of_channel ts gid cid = [] \<Longrightarrow> find_open_by_channel ts gid cid = None"
  by (induction ts) (auto simp: find_open_by_channel_def rows_of_channel_def split: if_splits)

lemma mark_closed_single_row:
  "length (rows_of_channel ts gid cid) \<le> 1 \<Longrightarrow>
   find_open_by_channel ts gid cid = Some row \<Longrightarrow>
   \<exists>i < length ts. ts ! i = row \<and> mark_closed ts gid cid = ts[i := row\<lparr>open_flag := 0\<rparr>]"
proof (induction ts)
  case Nil
  then show ?case by (simp add: find_open_by_channel_def)
next
  case (Cons a ts)
  show ?case
  proof (cases "guild_id a = gid \<and> channel_id a = cid")
    case True
    with Cons.prems(1) have none: "rows_of_channel ts gid cid = []"
      by (simp add: rows_of_channel_def)
    have "open_flag a = 1"
    proof (rule ccontr)
      assume "open_flag a \<noteq> 1"
      with Cons.prems(2) have "find_open_by_channel ts gid cid = Some row"
        by (simp add: find_open_by_channel_def)
      with find_open_no_rows [OF none] show False by simp
    qed
    with True Cons.prems(2) have "row = a" by (simp add: find_open_by_channel_def)
    moreover from True mark_closed_no_rows [OF none]
    have "mark_closed (a # ts) gid cid = a\<lparr>open_flag := 0\<rparr> # ts"
      by (simp add: mark_closed_def)
    ultimately have "(a # ts) ! 0 = row \<and>
        mark_closed (a # ts) gid cid = (a # ts)[0 := row\<lparr>open_flag := 0\<rparr>]"
      by simp
    then show ?thesis by blast
  next
    case False
    with Cons.prems have "length (rows_of_channel ts gid cid) \<le> 1"
      and "find_open_by_channel ts gid cid = Some row"
      by (auto simp: rows_of_channel_def find_open_by_channel_def)
    from Cons.IH [OF this] obtain i where i: "i < length ts" "ts ! i = row"
      "mark_closed ts gid cid = ts[i := row\<lparr>open_flag := 0\<rparr>]" by blast
    with False have "Suc i < length (a # ts) \<and> (a # ts) ! Suc i = row \<and>
        mark_closed (a # ts) gid cid = (a # ts)[Suc i := row\<lparr>open_flag := 0\<rparr>]"
      by (auto simp: mark_closed_def)
    then show ?thesis by blast
  qed
qed

lemma fixed_columns_step:
  "prefix (map fixed_columns (tickets d)) (map fixed_columns (tickets (step d x)))"
  using tickets_step [of d x]
  by (auto simp: fixed_columns_mark_closed fixed_columns_record_opened)

lemma fixed_columns_run:
  "prefix (map fixed_columns (tickets d)) (map fixed_columns (tickets (run d ops)))"
  unfolding run_def
proof (induction ops arbitrary: d)
  case Nil
  show ?case by simp
next
  case (Cons x ops)
  from fixed_columns_step [of d x] Cons.IH [of "step d x"]
  show ?case by (auto elim: prefix_order.trans)
qed

text \<open>
  The hypothesis "the channel has one row" holds of every table that handlers build
  from the empty one, as long as the platform answers \<^verbatim>\<open>create_text_channel\<close> with a
  channel id it has not handed out before.
\<close>

lemma one_row_count:
  "one_row_per_channel ts \<Longrightarrow> length (rows_of_channel ts gid cid) \<le> 1"
proof -
  assume "one_row_per_channel ts"
  then have "distinct (map (\<lambda>r. (guild_id r, channel_id r)) ts)"
    by (simp add: one_row_per_channel_def)
  from distinct_map_count_le_1 [OF this, of "(gid, cid)"]
  show ?thesis by (simp add: rows_of_channel_def)
qed

lemma one_row_mark_closed:
  "one_row_per_channel (mark_closed ts gid cid) = one_row_per_channel ts"
proof -
  have "map (\<lambda>r. (guild_id r, channel_id r)) (mark_closed ts gid cid) =
        map (\<lambda>r. (guild_id r, channel_id r)) ts"
    by (induction ts) (auto simp: mark_closed_def)
  then show ?thesis by (simp add: one_row_per_channel_def)
qed

lemma one_row_step:
  "one_row_per_channel (tickets d) \<Longrightarrow> fresh_for d x \<Longrightarrow>
   one_row_per_channel (tickets (step d x))"
  using tickets_step [of d x]
  by (auto simp: one_row_mark_closed) (auto simp: one_row_per_channel_def record_opened_def)

lemma one_row_run:
  "one_row_per_channel (tickets d) \<Longrightarrow> fresh_channels d ops \<Longrightarrow>
   one_row_per_channel (tickets (run d ops))"
  unfolding run_def by (induction ops arbitrary: d) (auto intro: one_row_step)

text \<open>
  C8. A close that succeeds leaves \<^verbatim>\<open>guild_config\<close> alone and turns the table into the
  result of the UPDATE: the table keeps its length; every row keeps its \<^verbatim>\<open>guild_id\<close>,
  \<^verbatim>\<open>user_id\<close>, \<^verbatim>\<open>channel_id\<close> and \<^verbatim>\<open>created_at\<close>; every row of another guild or
  channel is unchanged; and when the channel has one row in the table, as it has when
  channel ids are never handed out twice, the table after the close is the table before
  with the \<^verbatim>\<open>open\<close> of that one row, which was 1, set to 0. No invocation of any
  handler deletes a row or changes one of the four columns: the table before a run, read
  on these columns, is a prefix of the table after it.
\<close>

theorem close_frame:
  "(ticket_close_logic d g cid u history send_ok = (d', evs, Inr TicketClosed) \<longrightarrow>
      guild_config d' = guild_config d \<and>
      tickets d' = mark_closed (tickets d) (g_id g) cid \<and>
      length (tickets d') = length (tickets d) \<and>
      map fixed_columns (tickets d') = map fixed_columns (tickets d) \<and>
      (\<forall>i < length (tickets d).
          guild_id (tickets d ! i) \<noteq> g_id g \<or> channel_id (tickets d ! i) \<noteq> cid \<longrightarrow>
          tickets d' ! i = tickets d ! i) \<and>
      (length (rows_of_channel (tickets d) (g_id g) cid) \<le> 1 \<longrightarrow>
         (\<exists>i row. i < length (tickets d) \<and> tickets d ! i = row \<and> open_flag row = 1 \<and>
            guild_id row = g_id g \<and> channel_id row = cid \<and>
            tickets d' = (tickets d)[i := row\<lparr>open_flag := 0\<rparr>]))) \<and>
   prefix (map fixed_columns (tickets d0)) (map fixed_columns (tickets (run d0 ops)))"
proof (intro conjI impI allI)
  assume ok: "ticket_close_logic d g cid u history send_ok = (d', evs, Inr TicketClosed)"
  then have out: "snd (snd (ticket_close_logic d g cid u history send_ok)) = Inr TicketClosed"
    by simp
  from close_logic_closed_result [OF out] ok
  have d': "d' = d\<lparr>tickets := mark_closed (tickets d) (g_id g) cid\<rparr>" by simp
  then show "guild_config d' = guild_config d" by simp
  from d' show t: "tickets d' = mark_closed (tickets d) (g_id g) cid" by simp
  then show "length (tickets d') = length (tickets d)" by (simp add: length_mark_closed)
  from t show "map fixed_columns (tickets d') = map fixed_columns (tickets d)"
    by (simp add: fixed_columns_mark_closed)
  from ok obtain row where row: "find_open_by_channel (tickets d) (g_id g) cid = Some row"
    by (auto simp: ticket_close_logic_def split: option.splits)
  from find_SomeD [OF row [unfolded find_open_by_channel_def]]
  have props: "open_flag row = 1 \<and> guild_id row = g_id g \<and> channel_id row = cid" by simp
  {
    assume "length (rows_of_channel (tickets d) (g_id g) cid) \<le> 1"
    from mark_closed_single_row [OF this row] t props
    show "\<exists>i row. i < length (tickets d) \<and> tickets d ! i = row \<and> open_flag row = 1 \<and>
            guild_id row = g_id g \<and> channel_id row = cid \<and>
            tickets d' = (tickets d)[i := row\<lparr>open_flag := 0\<rparr>]"
      by auto
  }
  {
    fix i
    assume "i < length (tickets d)"
       and "guild_id (tickets d ! i) \<noteq> g_id g \<or> channel_id (tickets d ! i) \<noteq> cid"
    from mark_closed_other_rows [OF this] t
    show "tickets d' ! i = tickets d ! i" by simp
  }
next
  show "prefix (map fixed_columns (tickets d0)) (map fixed_columns (tickets (run d0 ops)))"
    by (rule fixed_columns_run)
qed

theorem close_frame_witness:
  "ticket_close_logic db_open shop_guild 100 carla (Some two_messages) True =
     (db_closed,
      [ReadHistory 100, CommitUpdate 1 100,
       SendTranscript 100 (build_transcript two_messages), Reply TicketClosed],
      Inr TicketClosed) \<and>
   length (rows_of_channel (tickets db_open) (g_id shop_guild) 100) \<le> 1 \<and>
   tickets db_closed = mark_closed (tickets db_open) (g_id shop_guild) 100 \<and>
   map fixed_columns (tickets db_closed) = map fixed_columns (tickets db_open) \<and>
   tickets db_closed = (tickets db_open)[0 := ticket_100\<lparr>open_flag := 0\<rparr>] \<and>
   prefix (map fixed_columns (tickets db_empty))
     (map fixed_columns (tickets (run db_empty scenario)))"
proof -
  have a: "ticket_close_logic db_open shop_guild 100 carla (Some two_messages) True =
     (db_closed,
      [ReadHistory 100, CommitUpdate 1 100,
       SendTranscript 100 (build_transcript two_messages), Reply TicketClosed],
      Inr TicketClosed)"
    by (simp add: example_defs handler_defs)
  have b: "length (rows_of_channel (tickets db_open) (g_id shop_guild) 100) \<le> 1"
    by (simp add: example_defs rows_of_channel_def)
  have c: "tickets db_closed = (tickets db_open)[0 := ticket_100\<lparr>open_flag := 0\<rparr>]"
    by (simp add: example_defs)
  from close_frame [of db_open shop_guild 100 carla "Some two_messages" True db_closed
         "[ReadHistory 100, CommitUpdate 1 100,
           SendTranscript 100 (build_transcript two_messages), Reply TicketClosed]"
         db_empty scenario] a b c
  show ?thesis by blast
qed

subsection \<open>The transcript\<close>

lemma split_on_no_sep: "c \<notin> set l \<Longrightarrow> split_on c l = [l]"
  by (induction l) auto

lemma split_on_append_sep:
  "c \<notin> set l \<Longrightarrow> split_on c (l @ c # rest) = l # split_on c rest"
  by (induction l) auto

lemma split_on_join:
  "ls \<noteq> [] \<Longrightarrow> \<forall>l \<in> set ls. c \<notin> set l \<Longrightarrow> split_on c (join [c] ls) = ls"
proof (induction "[c]" ls rule: join.induct)
  case 1
  then show ?case by simp
next
  case (2 x)
  then show ?case by (simp add: split_on_no_sep)
next
  case (3 x y ys)
  then show ?case by (simp add: split_on_append_sep)
qed

lemma digit_is_digit: "digit d \<in> set ''0123456789''"
  unfolding digit_def by (rule nth_mem) simp

lemma digit_not_newline: "digit d \<noteq> newline"
  using digit_is_digit [of d] by (auto simp: newline_def)

lemma newline_notin_two_digits: "newline \<notin> set (two_digits n)"
  using digit_not_newline [of n] digit_not_newline [of "n div 10"]
  by (auto simp: two_digits_def)

lemma newline_notin_format: "newline \<notin> set (format_created_at t)"
  by (simp add: format_created_at_def newline_notin_two_digits) (simp add: newline_def)

lemma newline_notin_replace: "newline \<notin> set (replace_newlines s)"
  by (auto simp: replace_newlines_def newline_def)

lemma newline_notin_line:
  "newline \<notin> set (author m) \<Longrightarrow> newline \<notin> set (transcript_line m)"
  by (simp add: transcript_line_def newline_notin_format newline_notin_replace)
     (simp add: newline_def)

lemma transcript_line_not_Nil: "transcript_line m \<noteq> []"
  by (simp add: transcript_line_def)

lemma join_not_Nil: "ls \<noteq> [] \<Longrightarrow> hd ls \<noteq> [] \<Longrightarrow> join sep ls \<noteq> []"
  by (induction sep ls rule: join.induct) auto

lemma build_transcript_messages:
  "history \<noteq> [] \<Longrightarrow>
   build_transcript history = join [newline] (map transcript_line history)"
  by (cases history)
     (simp_all add: build_transcript_def Let_def join_not_Nil transcript_line_not_Nil)

text \<open>
  C5. The names the platform gives its users hold no newline: that is the hypothesis on
  the authors. For a history of \<open>N \<ge> 1\<close> messages, oldest first, the transcript cut at
  its newlines is the list of the \<open>N\<close> rendered messages in the same order; line \<open>i\<close> is
  \<^verbatim>\<open>[dd/mm HH:MM] author: content\<close> of message \<open>i\<close>, with every newline of the content
  replaced by a space, and holds no newline itself. For the empty history the transcript
  is the one line \<^verbatim>\<open>Sem mensagens.\<close>, never the empty text.
\<close>

theorem transcript_complete:
  assumes "\<forall>m \<in> set history. newline \<notin> set (author m)"
  shows "(history \<noteq> [] \<longrightarrow>
            transcript_lines (build_transcript history) = map transcript_line history \<and>
            length (transcript_lines (build_transcript history)) = length history \<and>
            (\<forall>i < length history.
                transcript_lines (build_transcript history) ! i =
                  ''['' @ format_created_at (msg_created_at (history ! i)) @ ''] '' @
                  author (history ! i) @ '': '' @
                  map (\<lambda>c. if c = newline then CHR '' '' else c) (content (history ! i)) \<and>
                newline \<notin> set (transcript_lines (build_transcript history) ! i))) \<and>
         (history = [] \<longrightarrow>
            build_transcript history = ''Sem mensagens.'' \<and>
            transcript_lines (build_transcript history) = [''Sem mensagens.'']) \<and>
         build_transcript history \<noteq> []"
proof (intro conjI impI)
  assume ne: "history \<noteq> []"
  have nl: "\<forall>l \<in> set (map transcript_line history). newline \<notin> set l"
  proof
    fix l
    assume "l \<in> set (map transcript_line history)"
    then obtain m where m: "m \<in> set history" "l = transcript_line m" by auto
    with assms have "newline \<notin> set (author m)" by blast
    from newline_notin_line [OF this] m show "newline \<notin> set l" by simp
  qed
  from ne have "map transcript_line history \<noteq> []" by simp
  from split_on_join [OF this nl] build_transcript_messages [OF ne]
  show lines: "transcript_lines (build_transcript history) = map transcript_line history"
    by (simp add: transcript_lines_def)
  then show "length (transcript_lines (build_transcript history)) = length history"
    by simp
  show "\<forall>i < length history.
                transcript_lines (build_transcript history) ! i =
                  ''['' @ format_created_at (msg_created_at (history ! i)) @ ''] '' @
                  author (history ! i) @ '': '' @
                  map (\<lambda>c. if c = newline then CHR '' '' else c) (content (history ! i)) \<and>
                newline \<notin> set (transcript_lines (build_transcript history) ! i)"
  proof (intro allI impI)
    fix i
    assume i: "i < length history"
    then have "history ! i \<in> set history" by simp
    with assms have "newline \<notin> set (author (history ! i))" by blast
    from newline_notin_line [OF this] lines i
    show "transcript_lines (build_transcript history) ! i =
                  ''['' @ format_created_at (msg_created_at (history ! i)) @ ''] '' @
                  author (history ! i) @ '': '' @
                  map (\<lambda>c. if c = newline then CHR '' '' else c) (content (history ! i)) \<and>
                newline \<notin> set (transcript_lines (build_transcript history) ! i)"
      by (simp add: transcript_line_def replace_newlines_def)
  qed
next
  assume e: "history = []"
  then show "build_transcript history = ''Sem mensagens.''"
    by (simp add: build_transcript_def)
  from e show "transcript_lines (build_transcript history) = [''Sem mensagens.'']"
    by (simp add: build_transcript_def transcript_lines_def newline_def)
next
  show "build_transcript history \<noteq> []"
    by (simp add: build_transcript_def Let_def)
qed

theorem transcript_complete_witness:
  "newline \<notin> set ''ana'' \<and> newline \<notin> set ''carla'' \<and>
   transcript_lines (build_transcript two_messages) =
     [''[07/03 14:05] ana: oi tudo bem?'', ''[07/03 14:06] carla: ''] \<and>
   length (transcript_lines (build_transcript two_messages)) = 2 \<and>
   transcript_lines (build_transcript []) = [''Sem mensagens.'']"
proof -
  have a: "\<forall>m \<in> set two_messages. newline \<notin> set (author m)"
    by (simp add: two_messages_def newline_def)
  have b: "\<forall>m \<in> set ([] :: message list). newline \<notin> set (author m)"
    by simp
  have c: "map transcript_line two_messages =
     [''[07/03 14:05] ana: oi tudo bem?'', ''[07/03 14:06] carla: '']"
    by (simp add: two_messages_def transcript_line_def format_created_at_def two_digits_def
        digit_def replace_newlines_def newline_def)
  have d: "two_messages \<noteq> []" by (simp add: two_messages_def)
  have e: "newline \<notin> set ''ana'' \<and> newline \<notin> set ''carla''"
    by (simp add: newline_def)
  from transcript_complete [OF a] d
  have f: "transcript_lines (build_transcript two_messages) = map transcript_line two_messages"
    by blast
  from transcript_complete [OF b]
  have g: "transcript_lines (build_transcript []) = [''Sem mensagens.'']"
    by blast
  from e f g c show ?thesis by simp
qed

end
